theory Spec2Isabelle
  imports Main
begin

section \<open>Widget settings service: data model\<close>

text \<open>
  A shallow embedding of \<^verbatim>\<open>src/app/services/widgets/settings/widget-settings.ts\<close>
  (the abstract class \<^verbatim>\<open>WidgetSettingsService\<close>).

  JSON values as they come out of \<^verbatim>\<open>response.json()\<close> and off the socket. An object is
  a finite map from property names to values; a property that is missing reads as
  \<^verbatim>\<open>undefined\<close>, which is \<open>None\<close> here. Numbers are only stored, copied and tested for
  truthiness by the service, so integers stand for them.
\<close>

datatype jsval =
    JNull
  | JBool bool
  | JNum int
  | JStr string
  | JArr "jsval list"
  | JObj "string \<Rightarrow> jsval option"

type_synonym obj = "string \<Rightarrow> jsval option"

text \<open>JavaScript truthiness, as used by \<^verbatim>\<open>if (data.custom)\<close>.\<close>

fun truthy :: "jsval \<Rightarrow> bool" where
  "truthy JNull = False"
| "truthy (JBool b) = b"
| "truthy (JNum n) = (n \<noteq> 0)"
| "truthy (JStr s) = (s \<noteq> [])"
| "truthy (JArr xs) = True"
| "truthy (JObj m) = True"

text \<open>Truthiness of a property read: a missing property is \<^verbatim>\<open>undefined\<close>, which is falsy.\<close>

fun truthy_prop :: "jsval option \<Rightarrow> bool" where
  "truthy_prop None = False"
| "truthy_prop (Some v) = truthy v"

text \<open>\<^verbatim>\<open>export type THttpMethod = 'GET' | 'POST' | 'DELETE'\<close>\<close>

datatype THttpMethod = GET | POST | DELETE

text \<open>
  \<^verbatim>\<open>IWidgetTab\<close>. Every property but the name is typed as a plain value in the source,
  but \<^verbatim>\<open>getTabs\<close> can leave each of them \<^verbatim>\<open>undefined\<close> (see there), which is \<open>None\<close>
  here.
\<close>

record IWidgetTab =
  title :: "string option"
  name :: string
  fetchUrl :: "string option"
  saveUrl :: "string option"
  resetUrl :: "string option"
  resetMethod :: "THttpMethod option"
  autosave :: "bool option"
  showControls :: "bool option"

text \<open>
  A property of a declared tab. \<^verbatim>\<open>Partial<IWidgetTab>\<close> makes it optional, and an optional
  property may be missing from the object, be present with the value \<^verbatim>\<open>undefined\<close>, or be
  present with a value of its type. Reading the property gives \<^verbatim>\<open>undefined\<close> in the first
  two cases alike; the object spread tells them apart.
\<close>

datatype 'a optional = Missing | Undefined | Value 'a

fun read_prop :: "'a optional \<Rightarrow> 'a option" where
  "read_prop Missing = None"
| "read_prop Undefined = None"
| "read_prop (Value v) = Some v"

text \<open>
  A declared tab, \<^verbatim>\<open>{ name: string } & Partial<IWidgetTab>\<close>: the name is required and a
  string, every other property is optional.
\<close>

record tab_entry =
  entry_name :: string
  entry_title :: "string optional"
  entry_fetchUrl :: "string optional"
  entry_saveUrl :: "string optional"
  entry_resetUrl :: "string optional"
  entry_resetMethod :: "THttpMethod optional"
  entry_autosave :: "bool optional"
  entry_showControls :: "bool optional"

text \<open>\<^verbatim>\<open>IWidgetApiSettings\<close>\<close>

record IWidgetApiSettings =
  settingsUpdatedEvent :: string
  settingsSaveUrl :: string

text \<open>\<^verbatim>\<open>ISocketEvent<IWidgetSettings>\<close>: the event type and its payload, a settings object.\<close>

record ISocketEvent =
  etype :: string
  message :: obj

text \<open>
  What a concrete subclass supplies: the abstract members \<^verbatim>\<open>getDataUrl\<close> and
  \<^verbatim>\<open>getWidgetType\<close>, and the members of the base class it may override. The members of
  the \<^verbatim>\<open>WidgetType\<close> enum are declared in another module; the value stamped on a document
  is taken as it is.
\<close>

record widget =
  getDataUrl :: string
  getWidgetType :: jsval
  getApiSettings :: IWidgetApiSettings
  tabs :: "tab_entry list"
  patchAfterFetch :: "obj \<Rightarrow> obj"
  patchBeforeSend :: "obj \<Rightarrow> obj"

text \<open>The defaults of the base class.\<close>

definition base_getApiSettings :: IWidgetApiSettings where
  "base_getApiSettings = \<lparr> settingsUpdatedEvent = '''', settingsSaveUrl = '''' \<rparr>"

definition base_patchAfterFetch :: "obj \<Rightarrow> obj" where
  "base_patchAfterFetch data = data"

definition base_patchBeforeSend :: "obj \<Rightarrow> obj" where
  "base_patchBeforeSend data = data"

definition tab_named :: "string \<Rightarrow> tab_entry" where
  "tab_named n = \<lparr> entry_name = n, entry_title = Missing, entry_fetchUrl = Missing,
     entry_saveUrl = Missing, entry_resetUrl = Missing, entry_resetMethod = Missing,
     entry_autosave = Missing, entry_showControls = Missing \<rparr>"

text \<open>\<^verbatim>\<open>protected tabs = [{ name: 'settings' }]\<close>\<close>

definition base_tabs :: "tab_entry list" where
  "base_tabs = [tab_named ''settings'']"


section \<open>Tabs\<close>

text \<open>
  \<^verbatim>\<open>a || b\<close> on optional strings: the left operand when it is truthy (present and not
  the empty string), the right operand otherwise.
\<close>

definition js_or :: "string option \<Rightarrow> string option \<Rightarrow> string option" where
  "js_or a b = (case a of None \<Rightarrow> b | Some s \<Rightarrow> if s = [] then b else Some s)"

text \<open>
  \<^verbatim>\<open>String.prototype.toUpperCase\<close>, on ASCII only: the letters a to z go to A to Z and
  every other ASCII character stays. A character of this theory stands for a UTF-16 code
  unit below 256. For a code unit of 128 and above the built-in function is not modelled
  (it may give another letter, two letters, or a code unit above 255), and these
  definitions leave such a character as it is; every statement below about a title is
  restricted to names whose first character is ASCII (\<open>ascii_first\<close>).
\<close>

definition toUpperCase_char :: "char \<Rightarrow> char" where
  "toUpperCase_char c =
     (let n = (of_char c :: nat) in if 97 \<le> n \<and> n \<le> 122 then char_of (n - 32) else c)"

definition toUpperCase :: "string \<Rightarrow> string" where
  "toUpperCase s = map toUpperCase_char s"


text \<open>\<^verbatim>\<open>s.charAt(0)\<close> is the first character or the empty string; \<^verbatim>\<open>s.substr(1)\<close> the rest.\<close>

definition charAt0 :: "string \<Rightarrow> string" where
  "charAt0 s = take 1 s"

definition substr1 :: "string \<Rightarrow> string" where
  "substr1 s = drop 1 s"

text \<open>
  The object spread \<^verbatim>\<open>{ key: dflt, ...tab }\<close> seen at one key: when \<^verbatim>\<open>tab\<close> has the
  property, its value is copied over the one written before the spread, also when that
  value is \<^verbatim>\<open>undefined\<close>; when \<^verbatim>\<open>tab\<close> lacks the property, the value written before stays.
\<close>

definition spread :: "'a option \<Rightarrow> 'a optional \<Rightarrow> 'a option" where
  "spread dflt declared = (case declared of Missing \<Rightarrow> dflt | p \<Rightarrow> read_prop p)"

text \<open>
  The body of the arrow function that \<^verbatim>\<open>getTabs\<close> maps over \<^verbatim>\<open>this.tabs\<close>. The three
  \<^verbatim>\<open>||\<close> lines read the properties of the entry; the object literal then lists the
  defaults and spreads the entry over them.
\<close>

definition resolveTab :: "widget \<Rightarrow> tab_entry \<Rightarrow> IWidgetTab" where
  "resolveTab w tab =
     (let resetMethod' = DELETE;
          fetchUrl' = js_or (Some (getDataUrl w)) (read_prop (entry_fetchUrl tab));
          saveUrl' = js_or (read_prop (entry_saveUrl tab)) fetchUrl';
          resetUrl' = js_or (read_prop (entry_resetUrl tab)) saveUrl'
      in \<lparr> title = spread (Some (toUpperCase (charAt0 (entry_name tab)) @ substr1 (entry_name tab)))
                     (entry_title tab),
           name = entry_name tab,
           fetchUrl = spread fetchUrl' (entry_fetchUrl tab),
           saveUrl = spread saveUrl' (entry_saveUrl tab),
           resetUrl = spread resetUrl' (entry_resetUrl tab),
           resetMethod = spread (Some resetMethod') (entry_resetMethod tab),
           autosave = spread (Some True) (entry_autosave tab),
           showControls = spread (Some True) (entry_showControls tab) \<rparr>)"

definition getTabs :: "widget \<Rightarrow> IWidgetTab list" where
  "getTabs w = map (resolveTab w) (tabs w)"

text \<open>
  \<^verbatim>\<open>getTab(name)\<close>: the first resolved tab with that name. \<^verbatim>\<open>saveData\<close> passes its
  optional \<^verbatim>\<open>tabName\<close> on; when it is \<^verbatim>\<open>undefined\<close> (\<open>None\<close>) no tab name is strictly
  equal to it.
\<close>

definition getTab :: "widget \<Rightarrow> string option \<Rightarrow> IWidgetTab option" where
  "getTab w tabName = find (\<lambda>tab. Some (name tab) = tabName) (getTabs w)"

section \<open>The store, the network and the operations\<close>

text \<open>
  A request as \<^verbatim>\<open>request\<close> builds it. Every request carries the same headers (the
  authorisation header of the API token and the JSON content type); they are not recorded.
\<close>

record http_request =
  req_url :: string
  req_method :: THttpMethod
  req_body :: "obj option"

text \<open>
  What comes back from \<^verbatim>\<open>fetch\<close>: the promise rejects (the transport failed), or there
  is a response with a status and a body; the body is \<open>None\<close> when \<^verbatim>\<open>response.json()\<close>
  cannot parse it.
\<close>

datatype http_response = NetworkFailure | Response nat "obj option"

datatype error = TransportError | HttpStatusError nat | MalformedResponseError

text \<open>
  The server is outside the program: its answer is any function of the requests made
  so far and the request at hand.
\<close>

type_synonym network = "http_request list \<Rightarrow> http_request \<Rightarrow> http_response"

text \<open>
  The state of the service and what it has done: \<^verbatim>\<open>this.state.data\<close> (\<open>None\<close> while no
  document is cached), the requests issued in order, and the values sent on the
  \<^verbatim>\<open>dataUpdated\<close> subject in order.
\<close>

record store =
  data :: "obj option"
  requests :: "http_request list"
  dataUpdated :: "obj option list"

definition initial_store :: store where
  "initial_store = \<lparr> data = None, requests = [], dataUpdated = [] \<rparr>"

text \<open>
  Modelled from the spec: \<^verbatim>\<open>handleErrors\<close> is imported from \<^verbatim>\<open>util/requests\<close>, which is not
  among the sources. The specification says that a non-2xx response produces a request
  error carrying the status; a 2xx response is passed on.
\<close>

definition handleErrors :: "nat \<Rightarrow> obj option \<Rightarrow> error + obj option" where
  "handleErrors status body =
     (if 200 \<le> status \<and> status < 300 then Inr body else Inl (HttpStatusError status))"

text \<open>
  \<^verbatim>\<open>request\<close>: the method defaults to GET, the request is issued, and the promise chain
  \<^verbatim>\<open>fetch(request).then(handleErrors).then(response => response.json())\<close> gives the
  parsed body or rejects.
\<close>

definition request ::
  "network \<Rightarrow> string \<Rightarrow> THttpMethod option \<Rightarrow> obj option \<Rightarrow> store \<Rightarrow> (error + obj) \<times> store" where
  "request net url method body s =
     (let req = \<lparr> req_url = url,
                  req_method = (case method of None \<Rightarrow> GET | Some m \<Rightarrow> m),
                  req_body = body \<rparr>
      in ((case net (requests s) req of
             NetworkFailure \<Rightarrow> Inl TransportError
           | Response status b \<Rightarrow>
               (case handleErrors status b of
                  Inl e \<Rightarrow> Inl e
                | Inr None \<Rightarrow> Inl MalformedResponseError
                | Inr (Some d) \<Rightarrow> Inr d)),
          s\<lparr> requests := requests s @ [req] \<rparr>))"

text \<open>The mutation \<^verbatim>\<open>SET_WIDGET_DATA\<close> and \<^verbatim>\<open>setWidgetData\<close>, which also notifies.\<close>

definition SET_WIDGET_DATA :: "obj \<Rightarrow> store \<Rightarrow> store" where
  "SET_WIDGET_DATA d s = s\<lparr> data := Some d \<rparr>"

definition setWidgetData :: "obj \<Rightarrow> store \<Rightarrow> store" where
  "setWidgetData d s =
     (let s' = SET_WIDGET_DATA d s in s'\<lparr> dataUpdated := dataUpdated s' @ [data s'] \<rparr>)"

text \<open>
  \<^verbatim>\<open>handleDataAfterFetch\<close>: a truthy \<^verbatim>\<open>custom\<close> property is copied to \<^verbatim>\<open>custom_defaults\<close>,
  \<^verbatim>\<open>type\<close> is set, and the subclass hook patches the result.
\<close>

definition handleDataAfterFetch :: "widget \<Rightarrow> obj \<Rightarrow> obj" where
  "handleDataAfterFetch w d =
     (let d1 = (if truthy_prop (d ''custom'') then d(''custom_defaults'' := d ''custom'') else d);
          d2 = d1(''type'' \<mapsto> getWidgetType w)
      in patchAfterFetch w d2)"

text \<open>
  \<^verbatim>\<open>fetchData\<close>: the request is made only while nothing is cached. The method returns
  \<^verbatim>\<open>this.state.data\<close>, which after the mutation is the document just stored. A rejected
  request leaves the method at the \<^verbatim>\<open>await\<close>, before anything is stored.
\<close>

definition fetchData :: "widget \<Rightarrow> network \<Rightarrow> store \<Rightarrow> (error + obj) \<times> store" where
  "fetchData w net s =
     (case data s of
        None \<Rightarrow>
          (case request net (getDataUrl w) (Some GET) None s of
             (Inl e, s') \<Rightarrow> (Inl e, s')
           | (Inr d, s') \<Rightarrow> (let d' = handleDataAfterFetch w d in (Inr d', SET_WIDGET_DATA d' s')))
      | Some cur \<Rightarrow> (Inr cur, s))"

text \<open>
  \<^verbatim>\<open>saveData\<close>. The line
  \<^verbatim>\<open>const url = tab && tab.saveUrl ? tab.saveUrl : this.getDataUrl()\<close>
  takes the save URL of the named tab when there is such a tab and its save URL is truthy,
  and the data URL otherwise.
\<close>

definition saveData_url :: "widget \<Rightarrow> string option \<Rightarrow> string" where
  "saveData_url w tabName =
     (case getTab w tabName of
        None \<Rightarrow> getDataUrl w
      | Some tab \<Rightarrow> (case js_or (saveUrl tab) None of None \<Rightarrow> getDataUrl w | Some u \<Rightarrow> u))"

text \<open>
  The method defaults to POST, the response of the save request is dropped, and the
  result is that of \<^verbatim>\<open>fetchData\<close>.
\<close>

definition saveData ::
  "widget \<Rightarrow> network \<Rightarrow> obj \<Rightarrow> string option \<Rightarrow> THttpMethod option \<Rightarrow> store
     \<Rightarrow> (error + obj) \<times> store" where
  "saveData w net d tabName method s =
     (let url = saveData_url w tabName;
          bodyData = patchBeforeSend w d
      in (case request net url (Some (case method of None \<Rightarrow> POST | Some m \<Rightarrow> m))
                 (Some bodyData) s of
            (Inl e, s') \<Rightarrow> (Inl e, s')
          | (Inr r, s') \<Rightarrow> fetchData w net s'))"

text \<open>\<^verbatim>\<open>saveSettings\<close>: one POST to the settings URL; the response is dropped.\<close>

definition saveSettings :: "widget \<Rightarrow> network \<Rightarrow> obj \<Rightarrow> store \<Rightarrow> (error + unit) \<times> store" where
  "saveSettings w net settings s =
     (let body = patchBeforeSend w settings;
          apiSettings = getApiSettings w
      in (case request net (settingsSaveUrl apiSettings) (Some POST) (Some body) s of
            (Inl e, s') \<Rightarrow> (Inl e, s')
          | (Inr r, s') \<Rightarrow> (Inr (), s')))"

text \<open>
  \<^verbatim>\<open>Object.assign(target, source)\<close> on plain objects: every own property of the source is
  written to the target with an ordinary assignment. An assignment to the key
  \<^verbatim>\<open>__proto__\<close> of an object that has no own property of that name runs the setter
  inherited from \<^verbatim>\<open>Object.prototype\<close>, which sets the prototype of the target and creates
  no property; a document parsed from JSON can have such an own key. The prototype of the
  target is not part of the model: only own properties are copied from it afterwards.
\<close>

definition object_assign :: "obj \<Rightarrow> obj \<Rightarrow> obj" where
  "object_assign target source =
     (\<lambda>k. if k = ''__proto__'' \<and> target k = None then None
          else (case source k of None \<Rightarrow> target k | Some v \<Rightarrow> Some v))"

text \<open>
  \<^verbatim>\<open>onSettingsUpdatedHandler\<close>, the subscriber of the socket events: two early
  returns, then \<^verbatim>\<open>Object.assign({}, this.state.data)\<close> copies the cached document,
  \<^verbatim>\<open>Object.assign({}, data, { settings: newSettings })\<close> copies the copy and sets its
  \<^verbatim>\<open>settings\<close> property to the patched payload, and the result is stored with a
  notification.
\<close>

definition onSettingsUpdatedHandler :: "widget \<Rightarrow> ISocketEvent \<Rightarrow> store \<Rightarrow> store" where
  "onSettingsUpdatedHandler w event s =
     (let apiSettings = getApiSettings w
      in if etype event \<noteq> settingsUpdatedEvent apiSettings then s
         else (case data s of
                 None \<Rightarrow> s
               | Some cur \<Rightarrow>
                   (let newSettings = patchAfterFetch w (message event);
                        data' = object_assign Map.empty cur;
                        newData = object_assign (object_assign Map.empty data')
                                    [''settings'' \<mapsto> JObj newSettings]
                    in setWidgetData newData s)))"

text \<open>
  The operations that touch the store, and one step of the service: an operation runs to
  its end before the next one starts.
\<close>

datatype operation =
    FetchData
  | SaveData obj "string option" "THttpMethod option"
  | SaveSettings obj
  | SocketEvent ISocketEvent

fun step :: "widget \<Rightarrow> network \<Rightarrow> operation \<Rightarrow> store \<Rightarrow> store" where
  "step w net FetchData s = snd (fetchData w net s)"
| "step w net (SaveData d tabName method) s = snd (saveData w net d tabName method s)"
| "step w net (SaveSettings settings) s = snd (saveSettings w net settings s)"
| "step w net (SocketEvent event) s = onSettingsUpdatedHandler w event s"

fun run :: "widget \<Rightarrow> network \<Rightarrow> operation list \<Rightarrow> store \<Rightarrow> store" where
  "run w net [] s = s"
| "run w net (x # xs) s = run w net xs (step w net x s)"

section \<open>Vocabulary of the properties\<close>

text \<open>An asynchronous operation resolves with a value or rejects with an error.\<close>

definition resolved :: "(error + 'a) \<times> store \<Rightarrow> bool" where
  "resolved r = (case fst r of Inl e \<Rightarrow> False | Inr v \<Rightarrow> True)"

definition rejected :: "(error + 'a) \<times> store \<Rightarrow> bool" where
  "rejected r = (case fst r of Inl e \<Rightarrow> True | Inr v \<Rightarrow> False)"

text \<open>A failed HTTP exchange: the transport failed, or the status is not 2xx.\<close>

fun http_failure :: "http_response \<Rightarrow> bool" where
  "http_failure NetworkFailure = True"
| "http_failure (Response status b) = (status < 200 \<or> 300 \<le> status)"

text \<open>The requests that the three operations issue.\<close>

definition fetch_request :: "widget \<Rightarrow> http_request" where
  "fetch_request w = \<lparr> req_url = getDataUrl w, req_method = GET, req_body = None \<rparr>"

definition save_request ::
  "widget \<Rightarrow> obj \<Rightarrow> string option \<Rightarrow> THttpMethod option \<Rightarrow> http_request" where
  "save_request w d tabName method =
     \<lparr> req_url = saveData_url w tabName,
       req_method = (case method of None \<Rightarrow> POST | Some m \<Rightarrow> m),
       req_body = Some (patchBeforeSend w d) \<rparr>"

definition settings_request :: "widget \<Rightarrow> obj \<Rightarrow> http_request" where
  "settings_request w settings =
     \<lparr> req_url = settingsSaveUrl (getApiSettings w), req_method = POST,
       req_body = Some (patchBeforeSend w settings) \<rparr>"

text \<open>Reading the cache: a top-level property, and a key of the \<^verbatim>\<open>settings\<close> object.\<close>

definition cached_field :: "store \<Rightarrow> string \<Rightarrow> jsval option" where
  "cached_field s k = (case data s of None \<Rightarrow> None | Some d \<Rightarrow> d k)"

definition cached_setting :: "store \<Rightarrow> string \<Rightarrow> jsval option" where
  "cached_setting s k =
     (case cached_field s ''settings'' of Some (JObj m) \<Rightarrow> m k | _ \<Rightarrow> None)"


section \<open>Concrete services, documents and servers\<close>

text \<open>The two tab lists that the module exports.\<close>

definition CODE_EDITOR_TABS :: "tab_entry list" where
  "CODE_EDITOR_TABS =
     [(tab_named ''HTML'')\<lparr> entry_showControls := Value False, entry_autosave := Value False \<rparr>,
      (tab_named ''CSS'')\<lparr> entry_showControls := Value False, entry_autosave := Value False \<rparr>,
      (tab_named ''JS'')\<lparr> entry_showControls := Value False, entry_autosave := Value False \<rparr>]"

definition CODE_EDITOR_WITH_CUSTOM_FIELDS_TABS :: "tab_entry list" where
  "CODE_EDITOR_WITH_CUSTOM_FIELDS_TABS =
     CODE_EDITOR_TABS @
     [(tab_named ''customFields'')\<lparr> entry_title := Value ''Custom Fields'',
        entry_showControls := Value False, entry_autosave := Value False \<rparr>]"

text \<open>
  A service of kind K at \<^verbatim>\<open>/d\<close> that listens to \<^verbatim>\<open>upd\<close> events and overrides neither
  hook nor the tabs.
\<close>

definition ex_widget :: widget where
  "ex_widget = \<lparr> getDataUrl = ''/d'', getWidgetType = JStr ''K'',
     getApiSettings = \<lparr> settingsUpdatedEvent = ''upd'', settingsSaveUrl = ''/s'' \<rparr>,
     tabs = base_tabs, patchAfterFetch = base_patchAfterFetch,
     patchBeforeSend = base_patchBeforeSend \<rparr>"

definition ex_doc :: obj where
  "ex_doc = [''type'' \<mapsto> JStr ''K'',
             ''settings'' \<mapsto> JObj [''a'' \<mapsto> JNum 1, ''b'' \<mapsto> JNum 2]]"

definition ex_present :: store where
  "ex_present = \<lparr> data = Some ex_doc, requests = [], dataUpdated = [] \<rparr>"

definition ex_event :: ISocketEvent where
  "ex_event = \<lparr> etype = ''upd'', message = [''a'' \<mapsto> JNum 9] \<rparr>"

definition ex_other_event :: ISocketEvent where
  "ex_other_event = \<lparr> etype = ''donation'', message = [''a'' \<mapsto> JNum 9] \<rparr>"

text \<open>
  A server that answers every GET with the settings \<^verbatim>\<open>{x: 1}\<close> until a POST has been
  made and with \<^verbatim>\<open>{x: 2}\<close> afterwards, and every other request with an empty object.
\<close>

definition ex_server_doc :: "int \<Rightarrow> obj" where
  "ex_server_doc n = [''settings'' \<mapsto> JObj [''x'' \<mapsto> JNum n]]"

definition ex_net :: network where
  "ex_net hist req =
     (if req_method req = GET
      then Response 200 (Some (ex_server_doc (if POST \<in> set (map req_method hist) then 2 else 1)))
      else Response 200 (Some Map.empty))"

definition ex_fetched :: store where
  "ex_fetched = snd (fetchData ex_widget ex_net initial_store)"

text \<open>A server that answers every request with status 500.\<close>

definition ex_net_500 :: network where
  "ex_net_500 hist req = Response 500 None"

text \<open>A tab that declares a fetch URL of its own, on a service at \<^verbatim>\<open>/d\<close>.\<close>

definition ex_tab_f :: tab_entry where
  "ex_tab_f = (tab_named ''t'')\<lparr> entry_fetchUrl := Value ''/f'' \<rparr>"

definition ex_widget_f :: widget where
  "ex_widget_f = ex_widget\<lparr> tabs := [ex_tab_f] \<rparr>"

definition ex_widget_code :: widget where
  "ex_widget_code = ex_widget\<lparr> tabs := CODE_EDITOR_WITH_CUSTOM_FIELDS_TABS \<rparr>"

text \<open>A server whose document has a \<^verbatim>\<open>custom\<close> property that is the empty string.\<close>

definition ex_payload_custom :: obj where
  "ex_payload_custom = [''custom'' \<mapsto> JStr '''', ''settings'' \<mapsto> JObj Map.empty]"

definition ex_net_custom :: network where
  "ex_net_custom hist req = Response 200 (Some ex_payload_custom)"

text \<open>A server whose document has a \<^verbatim>\<open>custom\<close> object and a \<^verbatim>\<open>type\<close> of its own.\<close>

definition ex_payload_legacy :: obj where
  "ex_payload_legacy =
     [''custom'' \<mapsto> JObj [''html'' \<mapsto> JStr ''<b>''], ''type'' \<mapsto> JStr ''Z'']"

definition ex_net_legacy :: network where
  "ex_net_legacy hist req = Response 200 (Some ex_payload_legacy)"

text \<open>
  A service that keeps the \<^verbatim>\<open>getApiSettings\<close> of the base class and overrides
  \<^verbatim>\<open>patchAfterFetch\<close> to mark what it has patched.
\<close>

definition ex_patch :: "obj \<Rightarrow> obj" where
  "ex_patch d = d(''patched'' \<mapsto> JBool True)"

definition ex_widget_hook :: widget where
  "ex_widget_hook =
     ex_widget\<lparr> getApiSettings := base_getApiSettings, patchAfterFetch := ex_patch \<rparr>"

definition ex_widget_base :: widget where
  "ex_widget_base = ex_widget\<lparr> getApiSettings := base_getApiSettings \<rparr>"

definition ex_event_empty :: ISocketEvent where
  "ex_event_empty = \<lparr> etype = '''', message = [''x'' \<mapsto> JNum 5] \<rparr>"

text \<open>The scenario of the specification: a first fetch, then a save of \<^verbatim>\<open>{x: 2}\<close>.\<close>

definition ex_saved :: "(error + obj) \<times> store" where
  "ex_saved = saveData ex_widget ex_net (ex_server_doc 2) None (Some POST) ex_fetched"

definition ex_saved_first :: "(error + obj) \<times> store" where
  "ex_saved_first = saveData ex_widget ex_net (ex_server_doc 2) None (Some POST) initial_store"

text \<open>A service whose data URL is the empty string, and a tab whose save URL is.\<close>

definition ex_widget_nourl :: widget where
  "ex_widget_nourl = ex_widget\<lparr> getDataUrl := '''' \<rparr>"

definition ex_tab_s :: tab_entry where
  "ex_tab_s = (tab_named ''t'')\<lparr> entry_saveUrl := Value '''' \<rparr>"

definition ex_widget_s :: widget where
  "ex_widget_s = ex_widget\<lparr> tabs := [ex_tab_s] \<rparr>"

definition ex_legacy_fetched :: store where
  "ex_legacy_fetched = snd (fetchData ex_widget ex_net_legacy initial_store)"

text \<open>
  A cached document with an own \<^verbatim>\<open>__proto__\<close> key, as \<^verbatim>\<open>JSON.parse\<close> makes it from
  \<^verbatim>\<open>{"type": "K", "settings": {...}, "__proto__": {}}\<close>.
\<close>

definition ex_doc_proto :: obj where
  "ex_doc_proto = ex_doc(''__proto__'' \<mapsto> JObj Map.empty)"

definition ex_present_proto :: store where
  "ex_present_proto = \<lparr> data = Some ex_doc_proto, requests = [], dataUpdated = [] \<rparr>"

text \<open>A tab whose save URL is present with the value \<^verbatim>\<open>undefined\<close>.\<close>

definition ex_tab_u :: tab_entry where
  "ex_tab_u = (tab_named ''t'')\<lparr> entry_saveUrl := Undefined \<rparr>"

definition ex_widget_u :: widget where
  "ex_widget_u = ex_widget\<lparr> tabs := [ex_tab_u] \<rparr>"

section \<open>Collections of defining equations\<close>

lemmas op_defs =
  request_def handleErrors_def SET_WIDGET_DATA_def setWidgetData_def handleDataAfterFetch_def
  object_assign_def
  fetchData_def saveData_def saveSettings_def onSettingsUpdatedHandler_def
  resolved_def rejected_def fetch_request_def save_request_def settings_request_def

lemmas tab_defs =
  js_or_def toUpperCase_def toUpperCase_char_def charAt0_def substr1_def spread_def
  resolveTab_def getTabs_def getTab_def saveData_url_def tab_named_def base_tabs_def
  CODE_EDITOR_TABS_def CODE_EDITOR_WITH_CUSTOM_FIELDS_TABS_def

lemmas ex_defs =
  ex_widget_def ex_doc_def ex_present_def ex_event_def ex_other_event_def ex_server_doc_def
  ex_net_def ex_fetched_def ex_net_500_def ex_tab_f_def ex_widget_f_def ex_widget_code_def
  ex_payload_custom_def ex_net_custom_def ex_payload_legacy_def ex_net_legacy_def ex_patch_def
  ex_widget_hook_def ex_widget_base_def ex_event_empty_def initial_store_def
  base_getApiSettings_def base_patchAfterFetch_def base_patchBeforeSend_def
  cached_field_def cached_setting_def ex_saved_def ex_saved_first_def ex_widget_nourl_def
  ex_tab_s_def ex_widget_s_def ex_legacy_fetched_def ex_doc_proto_def ex_present_proto_def
  ex_tab_u_def ex_widget_u_def

section \<open>Facts about single operations\<close>

lemma request_log:
  "requests (snd (request net url method body s)) =
     requests s @ [\<lparr> req_url = url,
                      req_method = (case method of None \<Rightarrow> GET | Some m \<Rightarrow> m),
                      req_body = body \<rparr>]"
  by (simp add: request_def Let_def)

lemma request_data: "data (snd (request net url method body s)) = data s"
  by (simp add: request_def Let_def)

lemma request_dataUpdated: "dataUpdated (snd (request net url method body s)) = dataUpdated s"
  by (simp add: request_def Let_def)

lemma request_store:
  "snd (request net url method body s) =
     s\<lparr> requests := requests s @ [\<lparr> req_url = url,
            req_method = (case method of None \<Rightarrow> GET | Some m \<Rightarrow> m), req_body = body \<rparr>] \<rparr>"
  by (simp add: request_def Let_def)

lemma request_resolves:
  "fst (request net url method body s) = Inr d \<longleftrightarrow>
     (\<exists>status. net (requests s) \<lparr> req_url = url,
                      req_method = (case method of None \<Rightarrow> GET | Some m \<Rightarrow> m),
                      req_body = body \<rparr> = Response status (Some d)
               \<and> 200 \<le> status \<and> status < 300)"
  by (auto simp: request_def handleErrors_def Let_def
      split: http_response.splits option.splits sum.splits if_splits)

lemma request_fails:
  "http_failure (net (requests s) \<lparr> req_url = url,
        req_method = (case method of None \<Rightarrow> GET | Some m \<Rightarrow> m), req_body = body \<rparr>)
   \<Longrightarrow> \<exists>e. fst (request net url method body s) = Inl e"
  by (auto simp: request_def handleErrors_def Let_def
      split: http_response.splits option.splits sum.splits if_splits)

lemma fetchData_present: "data s = Some d \<Longrightarrow> fetchData w net s = (Inr d, s)"
  by (simp add: fetchData_def)

lemma fetchData_absent_rejects:
  "data s = None \<Longrightarrow> fst (request net (getDataUrl w) (Some GET) None s) = Inl e
   \<Longrightarrow> fetchData w net s = (Inl e, snd (request net (getDataUrl w) (Some GET) None s))"
  by (cases "request net (getDataUrl w) (Some GET) None s") (simp add: fetchData_def)

lemma fetchData_absent_resolves:
  "data s = None \<Longrightarrow> fst (request net (getDataUrl w) (Some GET) None s) = Inr d
   \<Longrightarrow> fetchData w net s =
         (Inr (handleDataAfterFetch w d),
          SET_WIDGET_DATA (handleDataAfterFetch w d)
            (snd (request net (getDataUrl w) (Some GET) None s)))"
  by (cases "request net (getDataUrl w) (Some GET) None s") (simp add: fetchData_def Let_def)

lemma saveData_rejects:
  "fst (request net (saveData_url w tabName)
          (Some (case method of None \<Rightarrow> POST | Some m \<Rightarrow> m)) (Some (patchBeforeSend w d)) s) = Inl e
   \<Longrightarrow> saveData w net d tabName method s =
         (Inl e, snd (request net (saveData_url w tabName)
            (Some (case method of None \<Rightarrow> POST | Some m \<Rightarrow> m)) (Some (patchBeforeSend w d)) s))"
  by (cases "request net (saveData_url w tabName)
          (Some (case method of None \<Rightarrow> POST | Some m \<Rightarrow> m)) (Some (patchBeforeSend w d)) s")
     (simp add: saveData_def Let_def)

lemma saveData_continues:
  "fst (request net (saveData_url w tabName)
          (Some (case method of None \<Rightarrow> POST | Some m \<Rightarrow> m)) (Some (patchBeforeSend w d)) s) = Inr r
   \<Longrightarrow> saveData w net d tabName method s =
         fetchData w net (snd (request net (saveData_url w tabName)
            (Some (case method of None \<Rightarrow> POST | Some m \<Rightarrow> m)) (Some (patchBeforeSend w d)) s))"
  by (cases "request net (saveData_url w tabName)
          (Some (case method of None \<Rightarrow> POST | Some m \<Rightarrow> m)) (Some (patchBeforeSend w d)) s")
     (simp add: saveData_def Let_def)

lemma saveSettings_store:
  "snd (saveSettings w net settings s) =
     snd (request net (settingsSaveUrl (getApiSettings w)) (Some POST)
            (Some (patchBeforeSend w settings)) s)"
  by (cases "request net (settingsSaveUrl (getApiSettings w)) (Some POST)
            (Some (patchBeforeSend w settings)) s")
     (auto simp: saveSettings_def Let_def split: sum.splits)

lemma request_eqD:
  "request net url method body s = (r, s') \<Longrightarrow>
     s' = s\<lparr> requests := requests s @ [\<lparr> req_url = url,
            req_method = (case method of None \<Rightarrow> GET | Some m \<Rightarrow> m), req_body = body \<rparr>] \<rparr>"
  by (auto simp: request_def Let_def)

lemma fetchData_dataUpdated: "dataUpdated (snd (fetchData w net s)) = dataUpdated s"
  by (auto simp: fetchData_def Let_def SET_WIDGET_DATA_def
      split: option.splits prod.splits sum.splits dest!: request_eqD)

lemma saveData_dataUpdated:
  "dataUpdated (snd (saveData w net d tabName method s)) = dataUpdated s"
proof (cases "fst (request net (saveData_url w tabName)
          (Some (case method of None \<Rightarrow> POST | Some m \<Rightarrow> m)) (Some (patchBeforeSend w d)) s)")
  case (Inl e)
  then show ?thesis by (simp add: saveData_rejects request_dataUpdated)
next
  case (Inr r)
  then show ?thesis by (simp add: saveData_continues fetchData_dataUpdated request_dataUpdated)
qed

lemma saveSettings_dataUpdated: "dataUpdated (snd (saveSettings w net settings s)) = dataUpdated s"
  by (simp add: saveSettings_store request_dataUpdated)

lemma saveSettings_data: "data (snd (saveSettings w net settings s)) = data s"
  by (simp add: saveSettings_store request_data)

lemma handler_absent: "data s = None \<Longrightarrow> onSettingsUpdatedHandler w ev s = s"
  by (simp add: onSettingsUpdatedHandler_def)

lemma object_assign_empty:
  "object_assign Map.empty d k = (if k = ''__proto__'' then None else d k)"
  by (simp add: object_assign_def split: option.splits)

lemma object_assign_settings:
  "object_assign (object_assign Map.empty (object_assign Map.empty d)) [''settings'' \<mapsto> v] =
     (object_assign Map.empty d)(''settings'' \<mapsto> v)"
  by (rule ext) (simp add: object_assign_def split: option.splits)

lemma handler_accepts:
  "etype ev = settingsUpdatedEvent (getApiSettings w) \<Longrightarrow> data s = Some d \<Longrightarrow>
     onSettingsUpdatedHandler w ev s =
       s\<lparr> data := Some ((object_assign Map.empty d)
                     (''settings'' \<mapsto> JObj (patchAfterFetch w (message ev)))),
          dataUpdated := dataUpdated s
             @ [Some ((object_assign Map.empty d)
                     (''settings'' \<mapsto> JObj (patchAfterFetch w (message ev))))] \<rparr>"
  by (simp add: onSettingsUpdatedHandler_def setWidgetData_def SET_WIDGET_DATA_def Let_def
      object_assign_settings)

lemma handler_other: 
  "etype ev \<noteq> settingsUpdatedEvent (getApiSettings w) \<Longrightarrow> onSettingsUpdatedHandler w ev s = s"
  by (simp add: onSettingsUpdatedHandler_def)

lemma fetchData_installs:
  assumes "data s = None" and "data (snd (fetchData w net s)) \<noteq> None"
  shows "\<exists>status payload.
           requests (snd (fetchData w net s)) = requests s @ [fetch_request w]
           \<and> net (requests s) (fetch_request w) = Response status (Some payload)
           \<and> 200 \<le> status \<and> status < 300
           \<and> fetchData w net s =
               (Inr (handleDataAfterFetch w payload),
                SET_WIDGET_DATA (handleDataAfterFetch w payload)
                  (snd (request net (getDataUrl w) (Some GET) None s)))"
proof (cases "fst (request net (getDataUrl w) (Some GET) None s)")
  case (Inl e)
  with assms show ?thesis by (simp add: fetchData_absent_rejects request_data)
next
  case (Inr payload)
  then obtain status where
    "net (requests s) (fetch_request w) = Response status (Some payload)"
    "200 \<le> status" "status < 300"
    by (auto simp: request_resolves fetch_request_def)
  moreover from assms(1) Inr have
    "fetchData w net s =
       (Inr (handleDataAfterFetch w payload),
        SET_WIDGET_DATA (handleDataAfterFetch w payload)
          (snd (request net (getDataUrl w) (Some GET) None s)))"
    by (rule fetchData_absent_resolves)
  ultimately show ?thesis
    by (simp add: SET_WIDGET_DATA_def request_log fetch_request_def)
qed

lemma fetchData_rejected_data:
  "fst (fetchData w net s) = Inl e \<Longrightarrow> data (snd (fetchData w net s)) = data s"
  by (auto simp: fetchData_def Let_def
      split: option.splits prod.splits sum.splits dest!: request_eqD)

lemma fetchData_keeps_present:
  "data s = Some d \<Longrightarrow> data (snd (fetchData w net s)) = Some d"
  by (simp add: fetchData_present)

lemma saveData_keeps_present:
  "data s = Some d \<Longrightarrow> data (snd (saveData w net d0 tabName method s)) = Some d"
proof (cases "fst (request net (saveData_url w tabName)
          (Some (case method of None \<Rightarrow> POST | Some m \<Rightarrow> m)) (Some (patchBeforeSend w d0)) s)")
  case (Inl e)
  assume "data s = Some d"
  with Inl show ?thesis by (simp add: saveData_rejects request_data)
next
  case (Inr r)
  assume "data s = Some d"
  with Inr show ?thesis by (simp add: saveData_continues fetchData_keeps_present request_data)
qed

lemma step_keeps_type:
  assumes "data s = Some d"
  shows "\<exists>d'. data (step w net x s) = Some d' \<and> d' ''type'' = d ''type''"
proof (cases x)
  case FetchData
  with assms show ?thesis by (simp add: fetchData_keeps_present)
next
  case (SaveData d0 tabName meth)
  with assms show ?thesis by (simp add: saveData_keeps_present)
next
  case (SaveSettings settings)
  with assms show ?thesis by (simp add: saveSettings_data)
next
  case (SocketEvent ev)
  show ?thesis
  proof (cases "etype ev = settingsUpdatedEvent (getApiSettings w)")
    case True
    with assms SocketEvent show ?thesis by (simp add: handler_accepts object_assign_empty)
  next
    case False
    with assms SocketEvent show ?thesis by (simp add: handler_other)
  qed
qed

lemma run_keeps_type:
  "data s = Some d \<Longrightarrow> \<exists>d'. data (run w net xs s) = Some d' \<and> d' ''type'' = d ''type''"
proof (induction xs arbitrary: s d)
  case Nil
  then show ?case by simp
next
  case (Cons x xs)
  from step_keeps_type [OF Cons.prems, of w net x] obtain d1 where
    d1: "data (step w net x s) = Some d1" "d1 ''type'' = d ''type''"
    by blast
  from Cons.IH [OF d1(1)] d1(2) show ?case by simp
qed

section \<open>Push events\<close>

text \<open>
  Claim C1, as the specification states it: an accepted push event overlays the cached
  settings with the payload, so that a settings key missing from the payload keeps its
  value, and every other top-level property of the document is unchanged. The code does
  not do that. With \<^verbatim>\<open>{a: 1, b: 2}\<close> cached and the payload \<^verbatim>\<open>{a: 9}\<close>, the key \<^verbatim>\<open>b\<close> is gone
  from the cached settings afterwards. And a cached document with an own \<^verbatim>\<open>__proto__\<close> key
  loses that top-level property, because \<^verbatim>\<open>Object.assign\<close> does not copy it.
\<close>

theorem push_merge_counterexample:
  "etype ex_event = settingsUpdatedEvent (getApiSettings ex_widget)
   \<and> data ex_present = Some ex_doc
   \<and> message ex_event ''b'' = None
   \<and> cached_setting ex_present ''b'' = Some (JNum 2)
   \<and> cached_setting (onSettingsUpdatedHandler ex_widget ex_event ex_present) ''b'' = None
   \<and> data ex_present_proto = Some ex_doc_proto
   \<and> cached_field ex_present_proto ''__proto__'' = Some (JObj Map.empty)
   \<and> cached_field (onSettingsUpdatedHandler ex_widget ex_event ex_present_proto) ''__proto__''
       = None"
  by (simp add: op_defs ex_defs Let_def)

text \<open>
  Claim C1, amended: for every cached document \<open>d\<close> and every push event of the
  registered type with payload \<open>m\<close>, the handler replaces the cache with a document whose
  \<^verbatim>\<open>settings\<close> property is the whole payload as patched by \<^verbatim>\<open>patchAfterFetch\<close> (no key of
  the old settings is kept), which has no own \<^verbatim>\<open>__proto__\<close> property, and whose other
  top-level properties are those of \<open>d\<close>.
\<close>

theorem push_replaces_settings:
  assumes "etype ev = settingsUpdatedEvent (getApiSettings w)"
    and "data s = Some d"
  shows "\<exists>d'. data (onSettingsUpdatedHandler w ev s) = Some d'
           \<and> d' ''settings'' = Some (JObj (patchAfterFetch w (message ev)))
           \<and> d' ''__proto__'' = None
           \<and> (\<forall>k. k \<noteq> ''settings'' \<and> k \<noteq> ''__proto__'' \<longrightarrow> d' k = d k)"
  using assms by (simp add: handler_accepts object_assign_empty)

theorem push_replaces_settings_witness:
  "etype ex_event = settingsUpdatedEvent (getApiSettings ex_widget)
   \<and> data ex_present_proto = Some ex_doc_proto
   \<and> cached_setting (onSettingsUpdatedHandler ex_widget ex_event ex_present_proto) ''a''
       = Some (JNum 9)
   \<and> cached_field (onSettingsUpdatedHandler ex_widget ex_event ex_present_proto) ''__proto__''
       = None
   \<and> cached_field (onSettingsUpdatedHandler ex_widget ex_event ex_present_proto) ''type''
       = Some (JStr ''K'')"
proof -
  have h1: "etype ex_event = settingsUpdatedEvent (getApiSettings ex_widget)"
    by (simp add: ex_defs)
  have h2: "data ex_present_proto = Some ex_doc_proto"
    by (simp add: ex_defs)
  from push_replaces_settings [OF h1 h2] obtain d' where
    d': "data (onSettingsUpdatedHandler ex_widget ex_event ex_present_proto) = Some d'
         \<and> d' ''settings'' = Some (JObj (patchAfterFetch ex_widget (message ex_event)))
         \<and> d' ''__proto__'' = None
         \<and> (\<forall>k. k \<noteq> ''settings'' \<and> k \<noteq> ''__proto__'' \<longrightarrow> d' k = ex_doc_proto k)"
    by (elim exE) (rule that)
  then have "d' ''type'' = ex_doc_proto ''type''" by simp
  with d' h1 h2 show ?thesis
    by (simp add: cached_setting_def cached_field_def ex_widget_def ex_event_def ex_doc_def
        ex_doc_proto_def base_patchAfterFetch_def)
qed

text \<open>
  Claim C5: whatever the cache holds, a push event whose type is not the registered
  update-event name leaves the store as it is: the cached document is not altered and
  nothing is sent on \<^verbatim>\<open>dataUpdated\<close>.
\<close>

theorem push_other_type_ignored:
  assumes "etype ev \<noteq> settingsUpdatedEvent (getApiSettings w)"
  shows "onSettingsUpdatedHandler w ev s = s
         \<and> data (onSettingsUpdatedHandler w ev s) = data s
         \<and> dataUpdated (onSettingsUpdatedHandler w ev s) = dataUpdated s"
  using assms by (simp add: onSettingsUpdatedHandler_def)

theorem push_other_type_ignored_witness:
  "etype ex_other_event \<noteq> settingsUpdatedEvent (getApiSettings ex_widget)
   \<and> onSettingsUpdatedHandler ex_widget ex_other_event ex_present = ex_present
   \<and> onSettingsUpdatedHandler ex_widget ex_other_event initial_store = initial_store"
proof -
  have h: "etype ex_other_event \<noteq> settingsUpdatedEvent (getApiSettings ex_widget)"
    by (simp add: ex_defs)
  show ?thesis
    using h push_other_type_ignored [OF h, of ex_present]
      push_other_type_ignored [OF h, of initial_store] by simp
qed

section \<open>The default update-event name\<close>

text \<open>
  Claim C9, as stated: on a service that keeps the \<^verbatim>\<open>getApiSettings\<close> of the base class,
  a push event of type \<^verbatim>\<open>''\<close> that arrives while a document is cached replaces the cached
  settings with the payload of the event. The handler stores what \<^verbatim>\<open>patchAfterFetch\<close>
  returns for the payload, so on a service that overrides this hook the settings are not
  the payload: here they have a key \<^verbatim>\<open>patched\<close> that the payload lacks.
\<close>

theorem default_event_payload_counterexample:
  "getApiSettings ex_widget_hook = base_getApiSettings
   \<and> etype ex_event_empty = ''''
   \<and> data ex_present = Some ex_doc
   \<and> message ex_event_empty ''patched'' = None
   \<and> cached_setting (onSettingsUpdatedHandler ex_widget_hook ex_event_empty ex_present)
        ''patched'' = Some (JBool True)"
  by (simp add: op_defs ex_defs Let_def)

text \<open>
  Claim C9, amended: on a service that keeps the \<^verbatim>\<open>getApiSettings\<close> of the base class the
  registered update-event name is the empty string, so a push event of type \<^verbatim>\<open>''\<close> passes
  the type test of the handler and, when a document is cached, replaces its settings with what
  \<^verbatim>\<open>patchAfterFetch\<close> returns for the payload; that is the payload itself when the service
  keeps the hook of the base class too. The document stored is the copy that
  \<^verbatim>\<open>Object.assign\<close> makes of the cached one, with that \<^verbatim>\<open>settings\<close> property.
\<close>

theorem default_event_name_gate:
  assumes "getApiSettings w = base_getApiSettings"
  shows "settingsUpdatedEvent (getApiSettings w) = ''''
         \<and> (etype ev = '''' \<and> data s = Some d \<longrightarrow>
              data (onSettingsUpdatedHandler w ev s) =
                Some ((object_assign Map.empty d)(''settings'' \<mapsto> JObj (patchAfterFetch w (message ev))))
              \<and> (patchAfterFetch w = base_patchAfterFetch \<longrightarrow>
                   data (onSettingsUpdatedHandler w ev s) =
                     Some ((object_assign Map.empty d)(''settings'' \<mapsto> JObj (message ev)))))"
proof (intro conjI impI)
  from assms show e: "settingsUpdatedEvent (getApiSettings w) = ''''"
    by (simp add: base_getApiSettings_def)
  assume a: "etype ev = '''' \<and> data s = Some d"
  with e show g: "data (onSettingsUpdatedHandler w ev s) =
                Some ((object_assign Map.empty d)(''settings'' \<mapsto> JObj (patchAfterFetch w (message ev))))"
    by (simp add: handler_accepts)
  assume "patchAfterFetch w = base_patchAfterFetch"
  then have "patchAfterFetch w (message ev) = message ev"
    by (simp add: base_patchAfterFetch_def)
  with g show "data (onSettingsUpdatedHandler w ev s) =
                     Some ((object_assign Map.empty d)(''settings'' \<mapsto> JObj (message ev)))"
    by simp
qed

theorem default_event_name_gate_witness:
  "getApiSettings ex_widget_base = base_getApiSettings
   \<and> etype ex_event_empty = ''''
   \<and> data ex_present = Some ex_doc
   \<and> patchAfterFetch ex_widget_base = base_patchAfterFetch
   \<and> settingsUpdatedEvent (getApiSettings ex_widget_base) = ''''
   \<and> data (onSettingsUpdatedHandler ex_widget_base ex_event_empty ex_present) =
       Some ((object_assign Map.empty ex_doc)(''settings'' \<mapsto> JObj (message ex_event_empty)))
   \<and> cached_setting (onSettingsUpdatedHandler ex_widget_base ex_event_empty ex_present) ''x''
       = Some (JNum 5)"
proof -
  have h1: "getApiSettings ex_widget_base = base_getApiSettings"
    by (simp add: ex_defs)
  have h2: "etype ex_event_empty = '''' \<and> data ex_present = Some ex_doc"
    by (simp add: ex_defs)
  have h3: "patchAfterFetch ex_widget_base = base_patchAfterFetch"
    by (simp add: ex_defs)
  from default_event_name_gate [OF h1, of ex_event_empty ex_present ex_doc] h2 h3
  have c: "settingsUpdatedEvent (getApiSettings ex_widget_base) = ''''
      \<and> data (onSettingsUpdatedHandler ex_widget_base ex_event_empty ex_present) =
          Some ((object_assign Map.empty ex_doc)(''settings'' \<mapsto> JObj (message ex_event_empty)))"
    by blast
  then have "cached_setting (onSettingsUpdatedHandler ex_widget_base ex_event_empty ex_present)
      ''x'' = Some (JNum 5)"
    by (simp add: cached_setting_def cached_field_def ex_event_empty_def)
  with h1 h2 h3 c show ?thesis by simp
qed

section \<open>Change notifications\<close>

text \<open>
  Claim C10: a value is sent on \<^verbatim>\<open>dataUpdated\<close> exactly when a push event of the
  registered type arrives while a document is cached, and the value sent is the document
  that the handler has just stored. \<^verbatim>\<open>fetchData\<close>, \<^verbatim>\<open>saveData\<close> (with the \<^verbatim>\<open>fetchData\<close> at
  its end) and \<^verbatim>\<open>saveSettings\<close> send nothing, also when they store a new document.
\<close>

theorem dataUpdated_only_on_accepted_push:
  "dataUpdated (snd (fetchData w net s)) = dataUpdated s
   \<and> dataUpdated (snd (saveData w net d tabName method s)) = dataUpdated s
   \<and> dataUpdated (snd (saveSettings w net settings s)) = dataUpdated s
   \<and> onSettingsUpdatedHandler w ev s =
       (case data s of
          None \<Rightarrow> s
        | Some cur \<Rightarrow>
            if etype ev = settingsUpdatedEvent (getApiSettings w)
            then s\<lparr> data := Some ((object_assign Map.empty cur)(''settings'' \<mapsto> JObj (patchAfterFetch w (message ev)))),
                    dataUpdated := dataUpdated s
                      @ [Some ((object_assign Map.empty cur)(''settings'' \<mapsto> JObj (patchAfterFetch w (message ev))))] \<rparr>
            else s)
   \<and> dataUpdated (step w net x s) =
       (case x of
          SocketEvent e \<Rightarrow>
            if etype e = settingsUpdatedEvent (getApiSettings w) \<and> data s \<noteq> None
            then dataUpdated s @ [data (step w net x s)]
            else dataUpdated s
        | _ \<Rightarrow> dataUpdated s)"
proof (intro conjI)
  show "dataUpdated (snd (fetchData w net s)) = dataUpdated s"
    by (rule fetchData_dataUpdated)
  show "dataUpdated (snd (saveData w net d tabName method s)) = dataUpdated s"
    by (rule saveData_dataUpdated)
  show "dataUpdated (snd (saveSettings w net settings s)) = dataUpdated s"
    by (rule saveSettings_dataUpdated)
  show "onSettingsUpdatedHandler w ev s =
       (case data s of
          None \<Rightarrow> s
        | Some cur \<Rightarrow>
            if etype ev = settingsUpdatedEvent (getApiSettings w)
            then s\<lparr> data := Some ((object_assign Map.empty cur)(''settings'' \<mapsto> JObj (patchAfterFetch w (message ev)))),
                    dataUpdated := dataUpdated s
                      @ [Some ((object_assign Map.empty cur)(''settings'' \<mapsto> JObj (patchAfterFetch w (message ev))))] \<rparr>
            else s)"
    by (simp add: handler_absent handler_accepts handler_other split: option.splits)
  show "dataUpdated (step w net x s) =
       (case x of
          SocketEvent e \<Rightarrow>
            if etype e = settingsUpdatedEvent (getApiSettings w) \<and> data s \<noteq> None
            then dataUpdated s @ [data (step w net x s)]
            else dataUpdated s
        | _ \<Rightarrow> dataUpdated s)"
  proof (cases x)
    case FetchData
    then show ?thesis by (simp add: fetchData_dataUpdated)
  next
    case (SaveData d0 t m)
    then show ?thesis by (simp add: saveData_dataUpdated)
  next
    case (SaveSettings st)
    then show ?thesis by (simp add: saveSettings_dataUpdated)
  next
    case (SocketEvent e)
    then show ?thesis
      by (cases "data s") (auto simp: handler_absent handler_accepts handler_other)
  qed
qed

theorem dataUpdated_only_on_accepted_push_witness:
  "dataUpdated (onSettingsUpdatedHandler ex_widget ex_event ex_present) =
     [Some [''type'' \<mapsto> JStr ''K'', ''settings'' \<mapsto> JObj [''a'' \<mapsto> JNum 9]]]
   \<and> data ex_fetched \<noteq> data initial_store
   \<and> dataUpdated ex_fetched = []
   \<and> dataUpdated (step ex_widget ex_net (SocketEvent ex_other_event) ex_present) = []
   \<and> dataUpdated (step ex_widget ex_net (SocketEvent ex_event) initial_store) = []"
proof -
  have a: "data ex_fetched \<noteq> data initial_store"
    by (simp add: op_defs ex_defs Let_def)
  have b: "dataUpdated initial_store = []" "dataUpdated ex_present = []"
    "data ex_present = Some ex_doc" "data initial_store = None"
    by (simp_all add: ex_defs)
  have c: "etype ex_event = settingsUpdatedEvent (getApiSettings ex_widget)"
    "etype ex_other_event \<noteq> settingsUpdatedEvent (getApiSettings ex_widget)"
    by (simp_all add: ex_defs)
  have e: "(object_assign Map.empty ex_doc)
        (''settings'' \<mapsto> JObj (patchAfterFetch ex_widget (message ex_event))) =
      [''type'' \<mapsto> JStr ''K'', ''settings'' \<mapsto> JObj [''a'' \<mapsto> JNum 9]]"
    by (rule ext) (simp add: ex_defs object_assign_def)
  from dataUpdated_only_on_accepted_push
    [of ex_widget ex_net initial_store ex_doc None None Map.empty ex_event FetchData]
  have c1: "dataUpdated ex_fetched = []"
    unfolding ex_fetched_def using b by simp
  from dataUpdated_only_on_accepted_push
    [of ex_widget ex_net ex_present ex_doc None None Map.empty ex_event
      "SocketEvent ex_other_event"]
  have c2: "dataUpdated (onSettingsUpdatedHandler ex_widget ex_event ex_present) =
     [Some [''type'' \<mapsto> JStr ''K'', ''settings'' \<mapsto> JObj [''a'' \<mapsto> JNum 9]]]"
    and c3: "dataUpdated (step ex_widget ex_net (SocketEvent ex_other_event) ex_present) = []"
    using b c e by simp_all
  from dataUpdated_only_on_accepted_push
    [of ex_widget ex_net initial_store ex_doc None None Map.empty ex_event
      "SocketEvent ex_event"]
  have c4: "dataUpdated (step ex_widget ex_net (SocketEvent ex_event) initial_store) = []"
    using b by simp
  from a c1 c2 c3 c4 show ?thesis by simp
qed

section \<open>Fetching and saving\<close>

text \<open>
  Claim C4: while a document is cached, \<^verbatim>\<open>fetchData\<close> makes no request (the store,
  with its list of requests, is as before) and returns the cached document. So when a
  first call on an empty cache has resolved, it has issued one GET, and a second call issues
  none and returns the same value.
\<close>

theorem fetchData_cached:
  "(data s = Some d \<longrightarrow> fetchData w net s = (Inr d, s))
   \<and> (data s = None \<and> resolved (fetchData w net s) \<longrightarrow>
        requests (snd (fetchData w net s)) = requests s @ [fetch_request w]
        \<and> fetchData w net (snd (fetchData w net s)) =
            (fst (fetchData w net s), snd (fetchData w net s)))"
proof (intro conjI impI)
  assume "data s = Some d"
  then show "fetchData w net s = (Inr d, s)" by (rule fetchData_present)
next
  assume a: "data s = None \<and> resolved (fetchData w net s)"
  then have "data (snd (fetchData w net s)) \<noteq> None"
    by (auto simp: resolved_def fetchData_def Let_def SET_WIDGET_DATA_def
        split: prod.splits sum.splits)
  with a obtain status payload where
    r: "requests (snd (fetchData w net s)) = requests s @ [fetch_request w]"
    and f: "fetchData w net s =
               (Inr (handleDataAfterFetch w payload),
                SET_WIDGET_DATA (handleDataAfterFetch w payload)
                  (snd (request net (getDataUrl w) (Some GET) None s)))"
    using fetchData_installs [of s w net] by blast
  from r show "requests (snd (fetchData w net s)) = requests s @ [fetch_request w]" .
  from f show "fetchData w net (snd (fetchData w net s)) =
            (fst (fetchData w net s), snd (fetchData w net s))"
    by (simp add: fetchData_present SET_WIDGET_DATA_def)
qed

theorem fetchData_cached_witness:
  "data ex_present = Some ex_doc
   \<and> fetchData ex_widget ex_net ex_present = (Inr ex_doc, ex_present)
   \<and> data initial_store = None
   \<and> resolved (fetchData ex_widget ex_net initial_store)
   \<and> requests ex_fetched = [fetch_request ex_widget]
   \<and> fetchData ex_widget ex_net ex_fetched = fetchData ex_widget ex_net initial_store"
proof -
  have h1: "data ex_present = Some ex_doc"
    by (simp add: ex_defs)
  have h2: "data initial_store = None \<and> resolved (fetchData ex_widget ex_net initial_store)"
    by (simp add: op_defs ex_defs Let_def)
  have r0: "requests initial_store = []"
    by (simp add: initial_store_def)
  from fetchData_cached [of ex_present ex_doc ex_widget ex_net] h1
  have c1: "fetchData ex_widget ex_net ex_present = (Inr ex_doc, ex_present)"
    by blast
  from fetchData_cached [of initial_store ex_doc ex_widget ex_net] h2
  have c2: "requests ex_fetched = requests initial_store @ [fetch_request ex_widget]
      \<and> fetchData ex_widget ex_net ex_fetched = fetchData ex_widget ex_net initial_store"
    unfolding ex_fetched_def by simp
  from h1 h2 c1 c2 r0 show ?thesis by simp
qed

text \<open>
  Claim C2, as the specification states it: a \<^verbatim>\<open>saveData\<close> that resolves has fetched the
  document again with a GET after the save, and the cache holds that fresh document. The
  code does not do that once a document is cached. In the scenario of the specification
  (a first fetch, then a save of \<^verbatim>\<open>{x: 2}\<close>) the only requests are the first GET and
  the POST; the server would now answer a GET with \<^verbatim>\<open>{x: 2}\<close>, and the cache still holds
  \<^verbatim>\<open>{x: 1}\<close>.
\<close>

theorem saveData_refetch_counterexample:
  "cached_setting ex_fetched ''x'' = Some (JNum 1)
   \<and> resolved ex_saved
   \<and> map req_method (requests (snd ex_saved)) = [GET, POST]
   \<and> map req_url (requests (snd ex_saved)) = [''/d'', ''/d'']
   \<and> ex_net (requests (snd ex_saved)) (fetch_request ex_widget)
       = Response 200 (Some (ex_server_doc 2))
   \<and> cached_setting (snd ex_saved) ''x'' = Some (JNum 1)"
  by (simp add: op_defs tab_defs ex_defs Let_def)

text \<open>
  Claim C2, amended: a \<^verbatim>\<open>saveData\<close> that resolves has issued the save request, which was
  answered with a 2xx status and a parseable body, and has then called \<^verbatim>\<open>fetchData\<close>. If
  no document was cached, a GET of the data URL followed the save, and the cache and the
  result are the server's answer to it after \<^verbatim>\<open>handleDataAfterFetch\<close>. If a document was
  cached, no GET was issued, and the cache and the result are that cached document.
\<close>

theorem saveData_then_fetchData:
  assumes "resolved (saveData w net d tabName method s)"
  shows "(\<exists>status body.
            net (requests s) (save_request w d tabName method) = Response status (Some body)
            \<and> 200 \<le> status \<and> status < 300)
         \<and> (case data s of
               Some cur \<Rightarrow>
                 saveData w net d tabName method s =
                   (Inr cur, s\<lparr> requests := requests s @ [save_request w d tabName method] \<rparr>)
             | None \<Rightarrow>
                 (\<exists>status payload.
                    net (requests s @ [save_request w d tabName method]) (fetch_request w)
                      = Response status (Some payload)
                    \<and> 200 \<le> status \<and> status < 300
                    \<and> saveData w net d tabName method s =
                        (Inr (handleDataAfterFetch w payload),
                         s\<lparr> data := Some (handleDataAfterFetch w payload),
                            requests := requests s
                              @ [save_request w d tabName method, fetch_request w] \<rparr>)))"
proof -
  let ?q = "request net (saveData_url w tabName)
       (Some (case method of None \<Rightarrow> POST | Some m \<Rightarrow> m)) (Some (patchBeforeSend w d)) s"
  have store: "snd ?q = s\<lparr> requests := requests s @ [save_request w d tabName method] \<rparr>"
    by (simp add: request_store save_request_def)
  obtain r where r: "fst ?q = Inr r"
  proof (cases "fst ?q")
    case (Inl e)
    with assms show ?thesis by (simp add: saveData_rejects resolved_def)
  next
    case (Inr r)
    then show ?thesis by (rule that)
  qed
  then have first: "\<exists>status body.
            net (requests s) (save_request w d tabName method) = Response status (Some body)
            \<and> 200 \<le> status \<and> status < 300"
    by (auto simp: request_resolves save_request_def)
  from r have sd: "saveData w net d tabName method s = fetchData w net (snd ?q)"
    by (rule saveData_continues)
  have second: "(case data s of
               Some cur \<Rightarrow>
                 saveData w net d tabName method s =
                   (Inr cur, s\<lparr> requests := requests s @ [save_request w d tabName method] \<rparr>)
             | None \<Rightarrow>
                 (\<exists>status payload.
                    net (requests s @ [save_request w d tabName method]) (fetch_request w)
                      = Response status (Some payload)
                    \<and> 200 \<le> status \<and> status < 300
                    \<and> saveData w net d tabName method s =
                        (Inr (handleDataAfterFetch w payload),
                         s\<lparr> data := Some (handleDataAfterFetch w payload),
                            requests := requests s
                              @ [save_request w d tabName method, fetch_request w] \<rparr>)))"
  proof (cases "data s")
    case (Some cur)
    then have "data (snd ?q) = Some cur" by (simp add: request_data)
    then have "fetchData w net (snd ?q) = (Inr cur, snd ?q)" by (rule fetchData_present)
    with Some sd store show ?thesis by simp
  next
    case None
    then have n: "data (snd ?q) = None" by (simp add: request_data)
    from assms sd have "resolved (fetchData w net (snd ?q))" by simp
    with n have "data (snd (fetchData w net (snd ?q))) \<noteq> None"
      by (auto simp: resolved_def fetchData_def Let_def SET_WIDGET_DATA_def
          split: prod.splits sum.splits)
    with n obtain status payload where
      "net (requests (snd ?q)) (fetch_request w) = Response status (Some payload)"
      "200 \<le> status" "status < 300"
      "fetchData w net (snd ?q) =
         (Inr (handleDataAfterFetch w payload),
          SET_WIDGET_DATA (handleDataAfterFetch w payload)
            (snd (request net (getDataUrl w) (Some GET) None (snd ?q))))"
      using fetchData_installs [of "snd ?q" w net] by blast
    with None sd store show ?thesis
      by (auto simp: SET_WIDGET_DATA_def request_store fetch_request_def)
  qed
  from first second show ?thesis by (rule conjI)
qed

theorem saveData_then_fetchData_witness:
  "resolved ex_saved
   \<and> resolved ex_saved_first
   \<and> requests (snd ex_saved) = requests ex_fetched
        @ [save_request ex_widget (ex_server_doc 2) None (Some POST)]
   \<and> data (snd ex_saved) = data ex_fetched
   \<and> cached_setting (snd ex_saved) ''x'' = Some (JNum 1)
   \<and> requests (snd ex_saved_first) =
        [save_request ex_widget (ex_server_doc 2) None (Some POST), fetch_request ex_widget]
   \<and> cached_setting (snd ex_saved_first) ''x'' = Some (JNum 2)"
proof -
  have h1: "resolved (saveData ex_widget ex_net (ex_server_doc 2) None (Some POST) ex_fetched)"
    by (simp add: op_defs tab_defs ex_defs Let_def)
  have h2: "resolved (saveData ex_widget ex_net (ex_server_doc 2) None (Some POST) initial_store)"
    by (simp add: op_defs tab_defs ex_defs Let_def)
  have f: "data ex_fetched = Some [''settings'' \<mapsto> JObj [''x'' \<mapsto> JNum 1], ''type'' \<mapsto> JStr ''K'']"
    by (simp add: op_defs ex_defs Let_def)
  have i: "data initial_store = None" "requests initial_store = []"
    by (simp_all add: initial_store_def)
  have g: "ex_net [save_request ex_widget (ex_server_doc 2) None (Some POST)]
      (fetch_request ex_widget) = Response 200 (Some (ex_server_doc 2))"
    by (simp add: op_defs tab_defs ex_defs)
  from saveData_then_fetchData [OF h1] f
  have c1: "ex_saved = (Inr [''settings'' \<mapsto> JObj [''x'' \<mapsto> JNum 1], ''type'' \<mapsto> JStr ''K''],
      ex_fetched\<lparr> requests := requests ex_fetched
        @ [save_request ex_widget (ex_server_doc 2) None (Some POST)] \<rparr>)"
    by (simp add: ex_saved_def)
  from saveData_then_fetchData [OF h2] i g
  have c2: "ex_saved_first =
      (Inr (handleDataAfterFetch ex_widget (ex_server_doc 2)),
       initial_store\<lparr> data := Some (handleDataAfterFetch ex_widget (ex_server_doc 2)),
         requests := [save_request ex_widget (ex_server_doc 2) None (Some POST),
                      fetch_request ex_widget] \<rparr>)"
    by (auto simp: ex_saved_first_def)
  have k: "cached_setting (snd ex_saved_first) ''x'' = Some (JNum 2)"
    unfolding c2
    by (simp add: cached_setting_def cached_field_def handleDataAfterFetch_def ex_widget_def
        ex_server_doc_def base_patchAfterFetch_def Let_def)
  from h1 h2 c1 c2 f k show ?thesis
    by (simp add: ex_saved_def ex_saved_first_def cached_setting_def cached_field_def)
qed

section \<open>Normalisation of a fetched document\<close>

text \<open>
  Claim C8, as the specification states it: any \<^verbatim>\<open>custom\<close> property of the fetched payload
  is promoted to \<^verbatim>\<open>custom_defaults\<close>. The code tests \<^verbatim>\<open>if (data.custom)\<close>, so a \<^verbatim>\<open>custom\<close>
  property with a falsy value is not promoted: a payload whose \<^verbatim>\<open>custom\<close> is the empty
  string is cached without \<^verbatim>\<open>custom_defaults\<close>.
\<close>

theorem custom_promotion_counterexample:
  "ex_payload_custom ''custom'' = Some (JStr '''')
   \<and> ex_net_custom (requests initial_store) (fetch_request ex_widget)
       = Response 200 (Some ex_payload_custom)
   \<and> resolved (fetchData ex_widget ex_net_custom initial_store)
   \<and> cached_field (snd (fetchData ex_widget ex_net_custom initial_store)) ''custom''
       = Some (JStr '''')
   \<and> cached_field (snd (fetchData ex_widget ex_net_custom initial_store)) ''custom_defaults''
       = None"
  by (simp add: op_defs ex_defs Let_def)

text \<open>
  Claim C8, amended: the document that \<^verbatim>\<open>fetchData\<close> installs is the result of the
  \<^verbatim>\<open>patchAfterFetch\<close> hook on the payload of the GET with \<^verbatim>\<open>type\<close> set to the widget type of
  the service (whatever the server sent) and, when the payload has a truthy \<^verbatim>\<open>custom\<close>
  property, with \<^verbatim>\<open>custom_defaults\<close> set to it; every other property is that of the
  payload. Once a document is cached, no operation and no sequence of operations changes
  its \<^verbatim>\<open>type\<close>.
\<close>

theorem fetchData_normalises:
  "(data s = None \<and> resolved (fetchData w net s) \<longrightarrow>
      (\<exists>status payload d2.
         net (requests s) (fetch_request w) = Response status (Some payload)
         \<and> 200 \<le> status \<and> status < 300
         \<and> data (snd (fetchData w net s)) = Some (patchAfterFetch w d2)
         \<and> d2 ''type'' = Some (getWidgetType w)
         \<and> d2 ''custom_defaults'' =
             (if truthy_prop (payload ''custom'') then payload ''custom''
              else payload ''custom_defaults'')
         \<and> (\<forall>k. k \<noteq> ''type'' \<and> k \<noteq> ''custom_defaults'' \<longrightarrow> d2 k = payload k)))
   \<and> (data s = Some d \<longrightarrow>
        (\<exists>d'. data (step w net x s) = Some d' \<and> d' ''type'' = d ''type'')
        \<and> (\<exists>d'. data (run w net xs s) = Some d' \<and> d' ''type'' = d ''type''))"
proof (intro conjI impI)
  assume a: "data s = None \<and> resolved (fetchData w net s)"
  then have "data (snd (fetchData w net s)) \<noteq> None"
    by (auto simp: resolved_def fetchData_def Let_def SET_WIDGET_DATA_def
        split: prod.splits sum.splits)
  with a obtain status payload where
    n: "net (requests s) (fetch_request w) = Response status (Some payload)"
      "200 \<le> status" "status < 300"
    and f: "fetchData w net s =
         (Inr (handleDataAfterFetch w payload),
          SET_WIDGET_DATA (handleDataAfterFetch w payload)
            (snd (request net (getDataUrl w) (Some GET) None s)))"
    using fetchData_installs [of s w net] by blast
  let ?d1 = "if truthy_prop (payload ''custom'')
             then payload(''custom_defaults'' := payload ''custom'') else payload"
  let ?d2 = "?d1(''type'' \<mapsto> getWidgetType w)"
  from f have "data (snd (fetchData w net s)) = Some (patchAfterFetch w ?d2)"
    by (simp add: SET_WIDGET_DATA_def handleDataAfterFetch_def Let_def)
  moreover have "?d2 ''type'' = Some (getWidgetType w)"
    by simp
  moreover have "?d2 ''custom_defaults'' =
             (if truthy_prop (payload ''custom'') then payload ''custom''
              else payload ''custom_defaults'')"
    by simp
  moreover have "\<forall>k. k \<noteq> ''type'' \<and> k \<noteq> ''custom_defaults'' \<longrightarrow> ?d2 k = payload k"
    by simp
  ultimately show "\<exists>status payload d2.
         net (requests s) (fetch_request w) = Response status (Some payload)
         \<and> 200 \<le> status \<and> status < 300
         \<and> data (snd (fetchData w net s)) = Some (patchAfterFetch w d2)
         \<and> d2 ''type'' = Some (getWidgetType w)
         \<and> d2 ''custom_defaults'' =
             (if truthy_prop (payload ''custom'') then payload ''custom''
              else payload ''custom_defaults'')
         \<and> (\<forall>k. k \<noteq> ''type'' \<and> k \<noteq> ''custom_defaults'' \<longrightarrow> d2 k = payload k)"
    using n by blast
next
  assume "data s = Some d"
  then show "\<exists>d'. data (step w net x s) = Some d' \<and> d' ''type'' = d ''type''"
    by (rule step_keeps_type)
next
  assume "data s = Some d"
  then show "\<exists>d'. data (run w net xs s) = Some d' \<and> d' ''type'' = d ''type''"
    by (rule run_keeps_type)
qed

theorem fetchData_normalises_witness:
  "data initial_store = None
   \<and> resolved (fetchData ex_widget ex_net_legacy initial_store)
   \<and> ex_payload_legacy ''type'' = Some (JStr ''Z'')
   \<and> cached_field ex_legacy_fetched ''type'' = Some (JStr ''K'')
   \<and> cached_field ex_legacy_fetched ''custom_defaults'' = ex_payload_legacy ''custom''
   \<and> cached_field (step ex_widget ex_net_legacy (SocketEvent ex_event) ex_legacy_fetched)
        ''type'' = Some (JStr ''K'')
   \<and> cached_field (run ex_widget ex_net_legacy
        [SocketEvent ex_event, SaveData ex_doc None None, FetchData] ex_legacy_fetched)
        ''type'' = Some (JStr ''K'')"
proof -
  have h1: "data initial_store = None \<and> resolved (fetchData ex_widget ex_net_legacy initial_store)"
    by (simp add: op_defs ex_defs Let_def)
  have p: "ex_payload_legacy ''type'' = Some (JStr ''Z'')"
    "truthy_prop (ex_payload_legacy ''custom'')"
    by (simp_all add: ex_defs)
  have q: "ex_net_legacy hist req = Response 200 (Some ex_payload_legacy)" for hist req
    by (simp add: ex_net_legacy_def)
  have w: "patchAfterFetch ex_widget = (\<lambda>d. d)" "getWidgetType ex_widget = JStr ''K''"
    by (simp_all add: ex_widget_def base_patchAfterFetch_def fun_eq_iff)
  note fetched = fetchData_normalises [of initial_store ex_widget ex_net_legacy,
      THEN conjunct1, THEN mp, OF h1]
  then obtain status payload d2 where
    r: "ex_net_legacy (requests initial_store) (fetch_request ex_widget)
          = Response status (Some payload)
        \<and> 200 \<le> status \<and> status < 300
        \<and> data (snd (fetchData ex_widget ex_net_legacy initial_store))
            = Some (patchAfterFetch ex_widget d2)
        \<and> d2 ''type'' = Some (getWidgetType ex_widget)
        \<and> d2 ''custom_defaults'' =
             (if truthy_prop (payload ''custom'') then payload ''custom''
              else payload ''custom_defaults'')
        \<and> (\<forall>k. k \<noteq> ''type'' \<and> k \<noteq> ''custom_defaults'' \<longrightarrow> d2 k = payload k)"
    by (elim exE) (rule that)
  from r have pl: "payload = ex_payload_legacy"
    by (simp add: q)
  from r have dat: "data ex_legacy_fetched = Some d2"
    by (simp add: w ex_legacy_fetched_def)
  from r have ty: "d2 ''type'' = Some (JStr ''K'')"
    by (simp add: w)
  from r pl p have cd: "d2 ''custom_defaults'' = ex_payload_legacy ''custom''"
    by simp
  note kept = fetchData_normalises [of ex_legacy_fetched ex_widget ex_net_legacy d2
      "SocketEvent ex_event" "[SocketEvent ex_event, SaveData ex_doc None None, FetchData]",
      THEN conjunct2, THEN mp, OF dat]
  with ty have k: "cached_field (step ex_widget ex_net_legacy (SocketEvent ex_event) ex_legacy_fetched)
        ''type'' = Some (JStr ''K'')
      \<and> cached_field (run ex_widget ex_net_legacy
        [SocketEvent ex_event, SaveData ex_doc None None, FetchData] ex_legacy_fetched)
        ''type'' = Some (JStr ''K'')"
    by (auto simp: cached_field_def)
  from h1 p dat ty cd k show ?thesis
    by (simp add: cached_field_def)
qed

section \<open>Tab defaults\<close>




section \<open>The cache as a state machine\<close>

text \<open>
  Claim C6: a push event that arrives while nothing is cached is ignored, whatever its
  type, and the cache stays empty. An operation that takes the cache from empty to
  holding a document is a \<^verbatim>\<open>fetchData\<close> (called directly or at the end of \<^verbatim>\<open>saveData\<close>)
  whose GET of the data URL was answered with a 2xx status and a parseable body, and the
  document it installs is that body after \<^verbatim>\<open>handleDataAfterFetch\<close>. No operation, and no
  sequence of operations, empties a cache that holds a document.
\<close>

theorem cache_state_transitions:
  "(data s = None \<longrightarrow> onSettingsUpdatedHandler w ev s = s)
   \<and> (data s = None \<and> data (step w net x s) \<noteq> None \<longrightarrow>
        (x = FetchData \<or> (\<exists>d0 tabName method. x = SaveData d0 tabName method))
        \<and> (\<exists>hist status payload.
              requests (step w net x s) = hist @ [fetch_request w]
              \<and> net hist (fetch_request w) = Response status (Some payload)
              \<and> 200 \<le> status \<and> status < 300
              \<and> data (step w net x s) = Some (handleDataAfterFetch w payload)))
   \<and> (data s \<noteq> None \<longrightarrow> data (step w net x s) \<noteq> None \<and> data (run w net xs s) \<noteq> None)"
proof (intro conjI impI)
  assume "data s = None"
  then show "onSettingsUpdatedHandler w ev s = s" by (rule handler_absent)
next
  assume a: "data s = None \<and> data (step w net x s) \<noteq> None"
  then show "x = FetchData \<or> (\<exists>d0 tabName method. x = SaveData d0 tabName method)"
    by (cases x) (auto simp: saveSettings_data handler_absent)
next
  assume a: "data s = None \<and> data (step w net x s) \<noteq> None"
  show "\<exists>hist status payload.
              requests (step w net x s) = hist @ [fetch_request w]
              \<and> net hist (fetch_request w) = Response status (Some payload)
              \<and> 200 \<le> status \<and> status < 300
              \<and> data (step w net x s) = Some (handleDataAfterFetch w payload)"
  proof (cases x)
    case FetchData
    with a have "data (snd (fetchData w net s)) \<noteq> None" by simp
    with a obtain status payload where
      "requests (snd (fetchData w net s)) = requests s @ [fetch_request w]"
      "net (requests s) (fetch_request w) = Response status (Some payload)"
      "200 \<le> status" "status < 300"
      "fetchData w net s =
         (Inr (handleDataAfterFetch w payload),
          SET_WIDGET_DATA (handleDataAfterFetch w payload)
            (snd (request net (getDataUrl w) (Some GET) None s)))"
      using fetchData_installs [of s w net] by blast
    with FetchData show ?thesis
      by (intro exI [of _ "requests s"] exI [of _ status] exI [of _ payload])
         (simp add: SET_WIDGET_DATA_def)
  next
    case (SaveData d0 tabName meth)
    let ?q = "request net (saveData_url w tabName)
          (Some (case meth of None \<Rightarrow> POST | Some m \<Rightarrow> m)) (Some (patchBeforeSend w d0)) s"
    show ?thesis
    proof (cases "fst ?q")
      case (Inl e)
      with a SaveData show ?thesis by (auto simp: saveData_rejects request_data)
    next
      case (Inr r)
      then have sd: "saveData w net d0 tabName meth s = fetchData w net (snd ?q)"
        by (rule saveData_continues)
      from a have n: "data (snd ?q) = None" by (simp add: request_data)
      from a SaveData sd have "data (snd (fetchData w net (snd ?q))) \<noteq> None" by simp
      with n obtain status payload where
        "requests (snd (fetchData w net (snd ?q))) = requests (snd ?q) @ [fetch_request w]"
        "net (requests (snd ?q)) (fetch_request w) = Response status (Some payload)"
        "200 \<le> status" "status < 300"
        "fetchData w net (snd ?q) =
           (Inr (handleDataAfterFetch w payload),
            SET_WIDGET_DATA (handleDataAfterFetch w payload)
              (snd (request net (getDataUrl w) (Some GET) None (snd ?q))))"
        using fetchData_installs [of "snd ?q" w net] by blast
      with SaveData sd show ?thesis
        by (intro exI [of _ "requests (snd ?q)"] exI [of _ status] exI [of _ payload])
           (simp add: SET_WIDGET_DATA_def)
    qed
  next
    case (SaveSettings settings)
    with a show ?thesis by (auto simp: saveSettings_data)
  next
    case (SocketEvent e)
    with a show ?thesis by (auto simp: handler_absent)
  qed
next
  assume "data s \<noteq> None"
  then obtain d where "data s = Some d" by blast
  then show "data (step w net x s) \<noteq> None"
    using step_keeps_type [of s d w net x] by auto
next
  assume "data s \<noteq> None"
  then obtain d where "data s = Some d" by blast
  then show "data (run w net xs s) \<noteq> None"
    using run_keeps_type [of s d w net xs] by auto
qed

theorem cache_state_transitions_witness:
  "data initial_store = None
   \<and> onSettingsUpdatedHandler ex_widget ex_event initial_store = initial_store
   \<and> data (step ex_widget ex_net FetchData initial_store) \<noteq> None
   \<and> data ex_present \<noteq> None
   \<and> data (step ex_widget ex_net_500 (SaveData ex_doc None None) ex_present) \<noteq> None
   \<and> data (run ex_widget ex_net_500
        [SocketEvent ex_event, SaveSettings Map.empty, FetchData] ex_present) \<noteq> None"
proof -
  have h1: "data initial_store = None"
    by (simp add: initial_store_def)
  have h2: "data (step ex_widget ex_net FetchData initial_store) \<noteq> None"
    by (simp add: op_defs ex_defs Let_def)
  have h3: "data ex_present \<noteq> None"
    by (simp add: ex_defs)
  from cache_state_transitions [of initial_store ex_widget ex_event ex_net FetchData] h1
  have c1: "onSettingsUpdatedHandler ex_widget ex_event initial_store = initial_store"
    by blast
  from cache_state_transitions [of ex_present ex_widget ex_event ex_net_500
      "SaveData ex_doc None None" "[SocketEvent ex_event, SaveSettings Map.empty, FetchData]"] h3
  have c3: "data (step ex_widget ex_net_500 (SaveData ex_doc None None) ex_present) \<noteq> None
      \<and> data (run ex_widget ex_net_500
           [SocketEvent ex_event, SaveSettings Map.empty, FetchData] ex_present) \<noteq> None"
    by blast
  from h1 h2 h3 c1 c3 show ?thesis by simp
qed

section \<open>Failures\<close>

text \<open>
  Claim C7: when the HTTP request under \<^verbatim>\<open>fetchData\<close>, \<^verbatim>\<open>saveData\<close> or \<^verbatim>\<open>saveSettings\<close>
  fails (the transport fails or the status is not 2xx), the operation rejects, and
  whenever one of them rejects the cached document is what it was before. For \<^verbatim>\<open>saveData\<close>
  this covers both of its requests: the save and the GET of the \<^verbatim>\<open>fetchData\<close> that
  follows it on an empty cache.
\<close>

theorem failure_leaves_cache:
  "(data s = None \<and> http_failure (net (requests s) (fetch_request w))
      \<longrightarrow> rejected (fetchData w net s))
   \<and> (http_failure (net (requests s) (save_request w d tabName method))
      \<longrightarrow> rejected (saveData w net d tabName method s))
   \<and> (data s = None
        \<and> http_failure (net (requests s @ [save_request w d tabName method]) (fetch_request w))
      \<longrightarrow> rejected (saveData w net d tabName method s))
   \<and> (http_failure (net (requests s) (settings_request w settings))
      \<longrightarrow> rejected (saveSettings w net settings s))
   \<and> (rejected (fetchData w net s) \<longrightarrow> data (snd (fetchData w net s)) = data s)
   \<and> (rejected (saveData w net d tabName method s)
      \<longrightarrow> data (snd (saveData w net d tabName method s)) = data s)
   \<and> (rejected (saveSettings w net settings s)
      \<longrightarrow> data (snd (saveSettings w net settings s)) = data s)"
proof (intro conjI impI)
  assume a: "data s = None \<and> http_failure (net (requests s) (fetch_request w))"
  then obtain e where "fst (request net (getDataUrl w) (Some GET) None s) = Inl e"
    using request_fails [of net s "getDataUrl w" "Some GET" None]
    by (auto simp: fetch_request_def)
  with a show "rejected (fetchData w net s)"
    by (simp add: fetchData_absent_rejects rejected_def)
next
  assume "http_failure (net (requests s) (save_request w d tabName method))"
  then obtain e where
    "fst (request net (saveData_url w tabName)
       (Some (case method of None \<Rightarrow> POST | Some m \<Rightarrow> m)) (Some (patchBeforeSend w d)) s) = Inl e"
    using request_fails [of net s "saveData_url w tabName"
        "Some (case method of None \<Rightarrow> POST | Some m \<Rightarrow> m)" "Some (patchBeforeSend w d)"]
    by (auto simp: save_request_def)
  then show "rejected (saveData w net d tabName method s)"
    by (simp add: saveData_rejects rejected_def)
next
  let ?q = "request net (saveData_url w tabName)
       (Some (case method of None \<Rightarrow> POST | Some m \<Rightarrow> m)) (Some (patchBeforeSend w d)) s"
  assume a: "data s = None
        \<and> http_failure (net (requests s @ [save_request w d tabName method]) (fetch_request w))"
  show "rejected (saveData w net d tabName method s)"
  proof (cases "fst ?q")
    case (Inl e)
    then show ?thesis by (simp add: saveData_rejects rejected_def)
  next
    case (Inr r)
    then have sd: "saveData w net d tabName method s = fetchData w net (snd ?q)"
      by (rule saveData_continues)
    from a have n: "data (snd ?q) = None" by (simp add: request_data)
    from a have "http_failure (net (requests (snd ?q)) (fetch_request w))"
      by (simp add: request_log save_request_def)
    then obtain e where "fst (request net (getDataUrl w) (Some GET) None (snd ?q)) = Inl e"
      using request_fails [of net "snd ?q" "getDataUrl w" "Some GET" None]
      by (auto simp: fetch_request_def)
    with n sd show ?thesis
      by (simp add: fetchData_absent_rejects rejected_def)
  qed
next
  assume "http_failure (net (requests s) (settings_request w settings))"
  then obtain e where
    "fst (request net (settingsSaveUrl (getApiSettings w)) (Some POST)
       (Some (patchBeforeSend w settings)) s) = Inl e"
    using request_fails [of net s "settingsSaveUrl (getApiSettings w)" "Some POST"
        "Some (patchBeforeSend w settings)"]
    by (auto simp: settings_request_def)
  then show "rejected (saveSettings w net settings s)"
    by (cases "request net (settingsSaveUrl (getApiSettings w)) (Some POST)
       (Some (patchBeforeSend w settings)) s")
       (simp add: saveSettings_def rejected_def Let_def)
next
  assume "rejected (fetchData w net s)"
  then obtain e where "fst (fetchData w net s) = Inl e"
    by (auto simp: rejected_def split: sum.splits)
  then show "data (snd (fetchData w net s)) = data s"
    by (rule fetchData_rejected_data)
next
  let ?q = "request net (saveData_url w tabName)
       (Some (case method of None \<Rightarrow> POST | Some m \<Rightarrow> m)) (Some (patchBeforeSend w d)) s"
  assume rj: "rejected (saveData w net d tabName method s)"
  show "data (snd (saveData w net d tabName method s)) = data s"
  proof (cases "fst ?q")
    case (Inl e)
    then show ?thesis by (simp add: saveData_rejects request_data)
  next
    case (Inr r)
    then have sd: "saveData w net d tabName method s = fetchData w net (snd ?q)"
      by (rule saveData_continues)
    with rj obtain e where "fst (fetchData w net (snd ?q)) = Inl e"
      by (auto simp: rejected_def split: sum.splits)
    then have "data (snd (fetchData w net (snd ?q))) = data (snd ?q)"
      by (rule fetchData_rejected_data)
    with sd show ?thesis by (simp add: request_data)
  qed
next
  show "data (snd (saveSettings w net settings s)) = data s"
    by (rule saveSettings_data)
qed

theorem failure_leaves_cache_witness:
  "data initial_store = None
   \<and> http_failure (ex_net_500 (requests initial_store) (fetch_request ex_widget))
   \<and> rejected (fetchData ex_widget ex_net_500 initial_store)
   \<and> rejected (saveData ex_widget ex_net_500 ex_doc None None initial_store)
   \<and> rejected (saveSettings ex_widget ex_net_500 Map.empty initial_store)
   \<and> data (snd (fetchData ex_widget ex_net_500 initial_store)) = None
   \<and> data (snd (saveData ex_widget ex_net_500 ex_doc None None initial_store)) = None
   \<and> data (snd (saveSettings ex_widget ex_net_500 Map.empty initial_store)) = None"
proof -
  have h1: "data initial_store = None"
    by (simp add: initial_store_def)
  have h2: "http_failure (ex_net_500 hist req)" for hist req
    by (simp add: ex_net_500_def)
  from failure_leaves_cache [of initial_store ex_net_500 ex_widget ex_doc None None Map.empty]
    h1 h2
  show ?thesis by simp
qed

end
